theory Spec2Isabelle
  imports Main
begin

section \<open>Python values\<close>

text \<open>
  The program is one Python module, \<^verbatim>\<open>book-borrow-agent.py\<close>. A Python \<^verbatim>\<open>str\<close> is a
  sequence of Unicode code points, so a string is modelled as the list of its code points;
  the catalogue is Chinese text, which is written here by code point. An ASCII literal of
  the source is written with \<open>ascii\<close>.
\<close>

type_synonym ustr = "nat list"

definition ascii :: "string \<Rightarrow> ustr" where
  "ascii s = map of_char s"

text \<open>
  The values the module builds: strings, booleans, \<^verbatim>\<open>None\<close>, lists and dicts. A dict
  literal keeps its keys in the order they are written, so it is an association list.
\<close>

datatype pyval =
    PStr ustr
  | PBool bool
  | PNone
  | PList "pyval list"
  | PDict "(ustr \<times> pyval) list"

type_synonym pydict = "(ustr \<times> pyval) list"

datatype py_error = KeyError ustr | TypeError

text \<open>The truth value Python gives an object in a condition.\<close>

fun truthy :: "pyval \<Rightarrow> bool" where
  "truthy (PStr s) = (s \<noteq> [])"
| "truthy (PBool b) = b"
| "truthy PNone = False"
| "truthy (PList xs) = (xs \<noteq> [])"
| "truthy (PDict d) = (d \<noteq> [])"

text \<open>\<^verbatim>\<open>d[k]\<close> raises \<^verbatim>\<open>KeyError\<close> on a missing key.\<close>

definition getitem :: "pydict \<Rightarrow> ustr \<Rightarrow> py_error + pyval" where
  "getitem d k = (case map_of d k of None \<Rightarrow> Inl (KeyError k) | Some v \<Rightarrow> Inr v)"

text \<open>\<^verbatim>\<open>d.get(k, default)\<close> never raises on a string key.\<close>

definition dict_get :: "(ustr \<times> 'v) list \<Rightarrow> ustr \<Rightarrow> 'v \<Rightarrow> 'v" where
  "dict_get d k dflt = (case map_of d k of None \<Rightarrow> dflt | Some v \<Rightarrow> v)"

text \<open>\<^verbatim>\<open>sep.join(xs)\<close> on a list of strings.\<close>

fun str_join :: "ustr \<Rightarrow> ustr list \<Rightarrow> ustr" where
  "str_join sep [] = []"
| "str_join sep [x] = x"
| "str_join sep (x # y # ys) = x @ sep @ str_join sep (y # ys)"

section \<open>The context schema\<close>

text \<open>
  \<^verbatim>\<open>@dataclass class Context: user_id: str\<close>. A tool that asks for it receives a
  \<^verbatim>\<open>ToolRuntime[Context]\<close>, of which the module reads the field \<^verbatim>\<open>context\<close> only; the
  other fields of the runtime are the record's extension.
\<close>

record Context =
  user_id :: ustr

record ToolRuntime =
  "context" :: Context

section \<open>The tools\<close>

subsection \<open>The catalogue's text\<close>

definition title_1 :: ustr where
  \<comment> \<open>the title of book 1 (Psychology and Life)\<close>
  "title_1 =
     [0x5FC3, 0x7406, 0x5B66, 0x4E0E, 0x751F, 0x6D3B]"

definition author_1 :: ustr where
  \<comment> \<open>its author (Richard Gerrig); U+00B7 is the middle dot\<close>
  "author_1 =
     [0x7406, 0x67E5, 0x5FB7, 0xB7, 0x683C, 0x91CC, 0x683C]"

definition publisher_1 :: ustr where
  \<comment> \<open>its publisher (Posts and Telecom Press)\<close>
  "publisher_1 =
     [0x4EBA, 0x6C11, 0x90AE, 0x7535, 0x51FA, 0x7248, 0x793E]"

definition description_1 :: ustr where
  \<comment> \<open>its description, 33 code points\<close>
  "description_1 =
     [0x672C, 0x4E66, 0x4ECB, 0x7ECD, 0x4E86, 0x5FC3, 0x7406, 0x5B66, 0x7684, 0x57FA,
     0x672C, 0x6982, 0x5FF5, 0x548C, 0x7406, 0x8BBA, 0xFF0C, 0x5E2E, 0x52A9, 0x8BFB, 0x8005,
     0x7406, 0x89E3, 0x4EBA, 0x7C7B, 0x884C, 0x4E3A, 0x548C, 0x5FC3, 0x7406, 0x8FC7, 0x7A0B,
     0x3002]"

definition title_2 :: ustr where
  \<comment> \<open>the title of book 2 (Influence)\<close>
  "title_2 =
     [0x5F71, 0x54CD, 0x529B]"

definition author_2 :: ustr where
  \<comment> \<open>its author (Robert Cialdini); U+00B7 is the middle dot\<close>
  "author_2 =
     [0x7F57, 0x4F2F, 0x7279, 0xB7, 0x897F, 0x5965, 0x8FEA, 0x5C3C]"

definition publisher_2 :: ustr where
  \<comment> \<open>its publisher (China Renmin University Press)\<close>
  "publisher_2 =
     [0x4E2D, 0x56FD, 0x4EBA, 0x6C11, 0x5927, 0x5B66, 0x51FA, 0x7248, 0x793E]"

definition description_2 :: ustr where
  \<comment> \<open>its description, 28 code points\<close>
  "description_2 =
     [0x672C, 0x4E66, 0x63ED, 0x793A, 0x4E86, 0x5F71, 0x54CD, 0x529B, 0x7684, 0x516D,
     0x5927, 0x539F, 0x5219, 0xFF0C, 0x5E2E, 0x52A9, 0x8BFB, 0x8005, 0x638C, 0x63E1, 0x8BF4,
     0x670D, 0x4ED6, 0x4EBA, 0x7684, 0x6280, 0x5DE7, 0x3002]"

definition title_3 :: ustr where
  \<comment> \<open>the title of book 3 (Thinking, Fast and Slow)\<close>
  "title_3 =
     [0x601D, 0x8003, 0xFF0C, 0x5FEB, 0x4E0E, 0x6162]"

definition author_3 :: ustr where
  \<comment> \<open>its author (Daniel Kahneman); U+00B7 is the middle dot\<close>
  "author_3 =
     [0x4E39, 0x5C3C, 0x5C14, 0xB7, 0x5361, 0x5C3C, 0x66FC]"

definition publisher_3 :: ustr where
  \<comment> \<open>its publisher (CITIC Press)\<close>
  "publisher_3 =
     [0x4E2D, 0x4FE1, 0x51FA, 0x7248, 0x793E]"

definition description_3 :: ustr where
  \<comment> \<open>its description, 29 code points\<close>
  "description_3 =
     [0x672C, 0x4E66, 0x63A2, 0x8BA8, 0x4E86, 0x4EBA, 0x7C7B, 0x601D, 0x7EF4, 0x7684,
     0x4E24, 0x79CD, 0x6A21, 0x5F0F, 0xFF0C, 0x63ED, 0x793A, 0x4E86, 0x51B3, 0x7B56, 0x8FC7,
     0x7A0B, 0x4E2D, 0x7684, 0x8BA4, 0x77E5, 0x504F, 0x5DEE, 0x3002]"

definition title_4 :: ustr where
  \<comment> \<open>the title of book 4 (The Willpower Instinct)\<close>
  "title_4 =
     [0x81EA, 0x63A7, 0x529B]"

definition author_4 :: ustr where
  \<comment> \<open>its author (Kelly McGonigal); U+00B7 is the middle dot\<close>
  "author_4 =
     [0x51EF, 0x5229, 0xB7, 0x9EA6, 0x683C, 0x5C3C, 0x683C, 0x5C14]"

definition publisher_4 :: ustr where
  \<comment> \<open>its publisher (China Machine Press)\<close>
  "publisher_4 =
     [0x673A, 0x68B0, 0x5DE5, 0x4E1A, 0x51FA, 0x7248, 0x793E]"

definition description_4 :: ustr where
  \<comment> \<open>its description, 28 code points\<close>
  "description_4 =
     [0x672C, 0x4E66, 0x63D0, 0x4F9B, 0x4E86, 0x63D0, 0x5347, 0x81EA, 0x63A7, 0x529B,
     0x7684, 0x79D1, 0x5B66, 0x65B9, 0x6CD5, 0xFF0C, 0x5E2E, 0x52A9, 0x8BFB, 0x8005, 0x514B,
     0x670D, 0x62D6, 0x5EF6, 0x548C, 0x51B2, 0x52A8, 0x3002]"

definition title_5 :: ustr where
  \<comment> \<open>the title of book 5 (Flow)\<close>
  "title_5 =
     [0x5FC3, 0x6D41]"

definition author_5 :: ustr where
  \<comment> \<open>its author (Mihaly Csikszentmihalyi); U+00B7 is the middle dot\<close>
  "author_5 =
     [0x7C73, 0x54C8, 0x91CC, 0xB7, 0x5951, 0x514B, 0x68EE, 0x7C73, 0x54C8, 0x8D56]"

definition publisher_5 :: ustr where
  \<comment> \<open>its publisher (Zhejiang People's Publishing House)\<close>
  "publisher_5 =
     [0x6D59, 0x6C5F, 0x4EBA, 0x6C11, 0x51FA, 0x7248, 0x793E]"

definition description_5 :: ustr where
  \<comment> \<open>its description, 32 code points\<close>
  "description_5 =
     [0x672C, 0x4E66, 0x63A2, 0x8BA8, 0x4E86, 0x5FC3, 0x6D41, 0x72B6, 0x6001, 0x7684,
     0x7279, 0x5F81, 0x548C, 0x5B9E, 0x73B0, 0x65B9, 0x6CD5, 0xFF0C, 0x5E2E, 0x52A9, 0x8BFB,
     0x8005, 0x63D0, 0x5347, 0x4E13, 0x6CE8, 0x529B, 0x548C, 0x5E78, 0x798F, 0x611F, 0x3002]"

definition borrowed_1a :: ustr where
  \<comment> \<open>title_1, then space, hyphen, space, then author_1\<close>
  "borrowed_1a =
     [0x5FC3, 0x7406, 0x5B66, 0x4E0E, 0x751F, 0x6D3B, 0x20, 0x2D, 0x20, 0x7406, 0x67E5,
     0x5FB7, 0xB7, 0x683C, 0x91CC, 0x683C]"

definition borrowed_1b :: ustr where
  \<comment> \<open>title_2, then space, hyphen, space, then author_2\<close>
  "borrowed_1b =
     [0x5F71, 0x54CD, 0x529B, 0x20, 0x2D, 0x20, 0x7F57, 0x4F2F, 0x7279, 0xB7, 0x897F,
     0x5965, 0x8FEA, 0x5C3C]"

definition borrowed_2a :: ustr where
  \<comment> \<open>title_3, then space, hyphen, space, then author_3\<close>
  "borrowed_2a =
     [0x601D, 0x8003, 0xFF0C, 0x5FEB, 0x4E0E, 0x6162, 0x20, 0x2D, 0x20, 0x4E39, 0x5C3C,
     0x5C14, 0xB7, 0x5361, 0x5C3C, 0x66FC]"

definition no_borrow_record :: ustr where
  \<comment> \<open>the fallback line (the user has no borrowing record yet)\<close>
  "no_borrow_record =
     [0x8BE5, 0x7528, 0x6237, 0x6682, 0x65E0, 0x501F, 0x9605, 0x8BB0, 0x5F55]"

definition doc_get_book_list :: ustr where
  \<comment> \<open>the docstring of get_book_list (get the list of books that can be borrowed)\<close>
  "doc_get_book_list =
     [0x83B7, 0x53D6, 0x53EF, 0x501F, 0x9605, 0x7684, 0x4E66, 0x7C4D, 0x5217, 0x8868]"

definition doc_get_book_list_by_userid :: ustr where
  \<comment> \<open>the docstring of get_book_list_by_userid (get the user's borrowed books by user id)\<close>
  "doc_get_book_list_by_userid =
     [0x6839, 0x636E, 0x7528, 0x6237, 0x49, 0x44, 0x83B7, 0x53D6, 0x8BE5, 0x7528, 0x6237,
     0x7684, 0x501F, 0x9605, 0x4E66, 0x7C4D, 0x5217, 0x8868]"

definition user_query :: ustr where
  \<comment> \<open>the user message of the run at the end of the module (look up my borrowed books)\<close>
  "user_query =
     [0x67E5, 0x8BE2, 0x6211, 0x7684, 0x501F, 0x9605, 0x4E66, 0x7C4D]"

subsection \<open>get\_book\_list\<close>

text \<open>The five dict literals of the local list \<^verbatim>\<open>books\<close>, in the source's order.\<close>

definition book_dict :: "ustr \<Rightarrow> ustr \<Rightarrow> ustr \<Rightarrow> string \<Rightarrow> ustr \<Rightarrow> bool \<Rightarrow> pydict" where
  "book_dict t a p d descr av =
     [(ascii ''title'', PStr t),
      (ascii ''author'', PStr a),
      (ascii ''publisher'', PStr p),
      (ascii ''publish_date'', PStr (ascii d)),
      (ascii ''description'', PStr descr),
      (ascii ''available'', PBool av)]"

definition book_1 :: pydict where
  "book_1 = book_dict title_1 author_1 publisher_1 ''2016-01-01'' description_1 True"

definition book_2 :: pydict where
  "book_2 = book_dict title_2 author_2 publisher_2 ''2010-01-01'' description_2 True"

definition book_3 :: pydict where
  "book_3 = book_dict title_3 author_3 publisher_3 ''2012-01-01'' description_3 False"

definition book_4 :: pydict where
  "book_4 = book_dict title_4 author_4 publisher_4 ''2013-01-01'' description_4 True"

definition book_5 :: pydict where
  "book_5 = book_dict title_5 author_5 publisher_5 ''2017-01-01'' description_5 True"

definition books :: "pydict list" where
  "books = [book_1, book_2, book_3, book_4, book_5]"

text \<open>
  The comprehension \<^verbatim>\<open>[book for book in books if book['available']]\<close>: the books are
  visited in order, the condition is the truth value of the looked-up entry, and a
  missing key would end the whole call with \<^verbatim>\<open>KeyError\<close>.
\<close>

fun available_books :: "pydict list \<Rightarrow> py_error + pydict list" where
  "available_books [] = Inr []"
| "available_books (book # rest) =
     (case getitem book (ascii ''available'') of
        Inl e \<Rightarrow> Inl e
      | Inr v \<Rightarrow>
          (case available_books rest of
             Inl e \<Rightarrow> Inl e
           | Inr kept \<Rightarrow> Inr (if truthy v then book # kept else kept)))"

text \<open>The function takes no argument: an invocation is its application to \<open>()\<close>.\<close>

definition get_book_list :: "unit \<Rightarrow> py_error + pyval" where
  "get_book_list call =
     (case available_books books of
        Inl e \<Rightarrow> Inl e
      | Inr kept \<Rightarrow> Inr (PDict [(ascii ''books'', PList (map PDict kept))]))"

subsection \<open>get\_book\_list\_by\_userid\<close>

definition borrowed_books :: "(ustr \<times> ustr list) list" where
  "borrowed_books =
     [(ascii ''1'', [borrowed_1a, borrowed_1b]),
      (ascii ''2'', [borrowed_2a])]"

definition get_book_list_by_userid :: "'a ToolRuntime_scheme \<Rightarrow> ustr" where
  "get_book_list_by_userid runtime =
     (let uid = user_id (context runtime)
      in str_join [0x0A] (dict_get borrowed_books uid [no_borrow_record]))"

section \<open>The response format\<close>

text \<open>
  \<^verbatim>\<open>ResponseFormat\<close> is a dataclass: three field declarations, each a name, an annotation
  and, for the last two, a default. The declarations are kept as data, and the constructor
  is the one \<^verbatim>\<open>@dataclass\<close> generates from them: a field that is not supplied takes its
  default, a field without default that is not supplied is a \<^verbatim>\<open>TypeError\<close>, as is a
  keyword that names no field. The constructor does not look at the annotations.
\<close>

datatype annotation = AStr | ADict | AOptional annotation

record dataclass_field =
  field_name :: ustr
  annotation :: annotation
  default_value :: "pyval option"

definition ResponseFormat_fields :: "dataclass_field list" where
  "ResponseFormat_fields =
     [\<lparr>field_name = ascii ''encouragement_response'', annotation = AStr,
         default_value = None\<rparr>,
      \<lparr>field_name = ascii ''book_info'', annotation = AOptional ADict,
         default_value = Some PNone\<rparr>,
      \<lparr>field_name = ascii ''reason'', annotation = AOptional AStr,
         default_value = Some PNone\<rparr>]"






text \<open>
  What a declaration says of its field: the field is required when it has no default, and
  its values are text (\<^verbatim>\<open>str\<close>) or a structured value (\<^verbatim>\<open>dict\<close>), \<^verbatim>\<open>| None\<close> aside.
\<close>

datatype field_type = Text | Structured

fun annotation_type :: "annotation \<Rightarrow> field_type" where
  "annotation_type AStr = Text"
| "annotation_type ADict = Structured"
| "annotation_type (AOptional a) = annotation_type a"

definition is_required :: "dataclass_field \<Rightarrow> bool" where
  "is_required f = (default_value f = None)"

section \<open>The agent core\<close>

text \<open>
  The module builds its agent with \<^verbatim>\<open>create_agent\<close> and runs it with \<^verbatim>\<open>agent.invoke\<close>.
  Both come from the \<^verbatim>\<open>langchain\<close> library: the orchestration core that takes the
  turns, dispatches the tools, binds the context, keeps the session and validates the
  structured output is not code of the module. It is modelled here from the
  specification of that core, and each definition says which part of the specification
  it follows. The language model stays a parameter.
\<close>

subsection \<open>Data model\<close>

text \<open>
  Modelled from the spec: the messages of the core, which the module leaves to the
  library (data model, \<^verbatim>\<open>Message\<close> and \<^verbatim>\<open>ToolInvocationRequest\<close>). The request's \<^verbatim>\<open>id\<close>
  is \<open>request_id\<close> here.
\<close>

datatype role = User | Assistant | Tool

record ToolInvocationRequest =
  request_id :: ustr
  tool_name :: ustr
  arguments :: pydict

record Message =
  role :: role
  content :: "ustr option"
  tool_calls :: "ToolInvocationRequest list"
  tool_call_id :: "ustr option"

text \<open>
  Modelled from the spec: the contract of a tool handler, which the module leaves to
  the library's \<^verbatim>\<open>@tool\<close> (external interfaces): a handler takes the arguments and the
  context, or no context, and answers \<^verbatim>\<open>{success: result} | {error: description}\<close>.
\<close>

datatype ToolResult = Success pyval | Error ustr

type_synonym ToolHandler = "pydict \<Rightarrow> Context option \<Rightarrow> ToolResult"

text \<open>
  Modelled from the spec: the tool descriptor and the registry that the library builds
  from \<^verbatim>\<open>tools=[...]\<close> (data model, \<^verbatim>\<open>ToolDescriptor\<close>). The specification speaks of
  handlers that declare a need for the context; the declaration is the descriptor's last
  field.
\<close>

record ToolDescriptor =
  name :: ustr
  parameter_schema :: "ustr list"
  handler :: ToolHandler
  description :: ustr
  declares_context :: bool

type_synonym ToolRegistry = "ToolDescriptor list"

text \<open>
  Modelled from the spec: the session and its store, the library's checkpointer (data
  model, \<^verbatim>\<open>Session\<close>). The session's \<^verbatim>\<open>id\<close> and \<^verbatim>\<open>status\<close> are \<open>session_id\<close> and
  \<open>session_status\<close> here.
\<close>

datatype SessionStatus = Active | Completed | Failed

record Session =
  session_id :: ustr
  messages :: "Message list"
  session_status :: SessionStatus

type_synonym SessionStore = "ustr \<Rightarrow> Session option"

text \<open>
  Modelled from the spec: the response schema the library derives from
  \<^verbatim>\<open>response_format\<close> (data model, \<^verbatim>\<open>ResponseSchema\<close>): named fields, each with a type
  and a required or optional marker.
\<close>

record FieldSpec =
  spec_name :: ustr
  spec_type :: field_type
  required :: bool

type_synonym ResponseSchema = "FieldSpec list"

text \<open>
  Modelled from the spec: what a call of the model gateway gives, and how it fails
  (component design, Model Gateway); the library's model call is not code of the module.
\<close>

datatype ModelOutcome = ToolCallOutcome "ToolInvocationRequest list" | FinalOutcome pyval

datatype ModelError = TransientModelError | FatalModelError

text \<open>
  Modelled from the spec: the result of the library's \<^verbatim>\<open>invoke\<close> (external interfaces,
  error handling design): a status, the structured response or none, the kind of error
  or none. \<open>FatalModel\<close> is the kind of a turn ended by a \<open>FatalModelError\<close> of the
  gateway. A \<open>Violation\<close> is what the validator found wrong with a payload.
\<close>

datatype ErrorKind = SchemaViolation | ModelUnavailable | FatalModel

datatype Violation = NotAMapping | UnknownField ustr | MissingField ustr | WrongType ustr

datatype TurnStatus = StatusDone | StatusFailed

record TurnResult =
  status :: TurnStatus
  structured_response :: "pydict option"
  error :: "ErrorKind option"

subsection \<open>The tools and the response format of the module, as the core sees them\<close>

text \<open>
  Modelled from the spec: the descriptors the library's \<^verbatim>\<open>@tool\<close> makes of the module's
  \<^verbatim>\<open>tools=[get_book_list, get_book_list_by_userid]\<close>, under the handler contract of the
  specification. The first function has no parameter,
  so its descriptor declares no context; the second has the one parameter
  \<^verbatim>\<open>runtime: ToolRuntime[Context]\<close>, so its descriptor declares the context, and its handler
  has nothing to read when the context is absent. Neither has a parameter the model fills
  in. A Python exception in a handler is reported under its name.
\<close>

fun py_error_name :: "py_error \<Rightarrow> ustr" where
  "py_error_name (KeyError k) = ascii ''KeyError''"
| "py_error_name TypeError = ascii ''TypeError''"

definition get_book_list_tool :: ToolDescriptor where
  "get_book_list_tool =
     \<lparr>name = ascii ''get_book_list'',
      parameter_schema = [],
      handler = (\<lambda>args ctx. case get_book_list () of
                                Inl e \<Rightarrow> Error (py_error_name e)
                              | Inr v \<Rightarrow> Success v),
      description = doc_get_book_list,
      declares_context = False\<rparr>"

definition get_book_list_by_userid_tool :: ToolDescriptor where
  "get_book_list_by_userid_tool =
     \<lparr>name = ascii ''get_book_list_by_userid'',
      parameter_schema = [],
      handler = (\<lambda>args ctx. case ctx of
                                None \<Rightarrow> Error (py_error_name TypeError)
                              | Some c \<Rightarrow> Success (PStr (get_book_list_by_userid \<lparr>context = c\<rparr>))),
      description = doc_get_book_list_by_userid,
      declares_context = True\<rparr>"

text \<open>
  Modelled from the spec: the schema the library derives from the module's
  \<^verbatim>\<open>response_format=ResponseFormat\<close>: one field for each declaration of the dataclass, with
  the declaration's name, type and marker.
\<close>

definition schema_of :: "dataclass_field list \<Rightarrow> ResponseSchema" where
  "schema_of decls =
     map (\<lambda>f. \<lparr>spec_name = field_name f, spec_type = annotation_type (annotation f),
                required = is_required f\<rparr>) decls"

subsection \<open>Tool registry\<close>

text \<open>
  Modelled from the spec: \<^verbatim>\<open>resolve\<close> and \<^verbatim>\<open>invoke\<close> of the tool registry, the
  library's tool dispatch (component design, Tool Registry), with the rule that a tool
  which declares no need for the context is invoked without it. A failure, the
  handler's or that of an unknown name, comes back as a tool-error result. \<open>ToolCall\<close>
  is what a handler received when it was invoked.
\<close>

record ToolCall =
  called :: ustr
  with_arguments :: pydict
  with_context :: "Context option"

definition resolve :: "ToolRegistry \<Rightarrow> ustr \<Rightarrow> ToolDescriptor option" where
  "resolve reg n = find (\<lambda>d. name d = n) reg"

definition registry_invoke ::
  "ToolRegistry \<Rightarrow> ustr \<Rightarrow> pydict \<Rightarrow> Context \<Rightarrow> ToolResult \<times> ToolCall option" where
  "registry_invoke reg n args ctx =
     (case resolve reg n of
        None \<Rightarrow> (Error (ascii ''UnknownToolError''), None)
      | Some d \<Rightarrow>
          (let c = (if declares_context d then Some ctx else None)
           in (handler d args c,
               Some \<lparr>called = name d, with_arguments = args, with_context = c\<rparr>)))"

subsection \<open>Session store\<close>

text \<open>
  Modelled from the spec: \<^verbatim>\<open>load\<close>, \<^verbatim>\<open>append\<close> and \<^verbatim>\<open>get_messages\<close> of the session
  store, the library's checkpointer (component design, Session Store), and the
  checkpoint of a session's status.
\<close>

definition load :: "SessionStore \<Rightarrow> ustr \<Rightarrow> Session" where
  "load st sid =
     (case st sid of
        Some s \<Rightarrow> s
      | None \<Rightarrow> \<lparr>session_id = sid, messages = [], session_status = Active\<rparr>)"

definition append_message :: "SessionStore \<Rightarrow> ustr \<Rightarrow> Message \<Rightarrow> SessionStore" where
  "append_message st sid m =
     st(sid \<mapsto> (load st sid)\<lparr>messages := messages (load st sid) @ [m]\<rparr>)"

definition get_messages :: "SessionStore \<Rightarrow> ustr \<Rightarrow> Message list" where
  "get_messages st sid = messages (load st sid)"

definition checkpoint_status :: "SessionStore \<Rightarrow> ustr \<Rightarrow> SessionStatus \<Rightarrow> SessionStore" where
  "checkpoint_status st sid s = st(sid \<mapsto> (load st sid)\<lparr>session_status := s\<rparr>)"

subsection \<open>Structured output validator\<close>

text \<open>
  Modelled from the spec: \<^verbatim>\<open>validate(raw_payload, schema)\<close>, the library's check of the
  model's final output (component design, Structured Output Validator). The payload must be a
  mapping onto exactly the schema's fields: a key that names no field is a violation, a
  required field that is missing is a violation, and a field that is present must have a
  value of its declared type, which for an optional field includes \<^verbatim>\<open>None\<close>. The parsed
  response has every field of the schema, in the schema's order, an optional field
  that is missing being \<^verbatim>\<open>None\<close>.
\<close>

fun has_type :: "field_type \<Rightarrow> pyval \<Rightarrow> bool" where
  "has_type Text (PStr s) = True"
| "has_type Structured (PDict d) = True"
| "has_type t v = False"

definition value_ok :: "FieldSpec \<Rightarrow> pyval \<Rightarrow> bool" where
  "value_ok f v = (has_type (spec_type f) v \<or> (\<not> required f \<and> v = PNone))"

fun check_fields :: "ResponseSchema \<Rightarrow> pydict \<Rightarrow> Violation + pydict" where
  "check_fields [] d = Inr []"
| "check_fields (f # fs) d =
     (case map_of d (spec_name f) of
        None \<Rightarrow>
          (if required f then Inl (MissingField (spec_name f))
           else (case check_fields fs d of
                   Inl v \<Rightarrow> Inl v
                 | Inr parsed \<Rightarrow> Inr ((spec_name f, PNone) # parsed)))
      | Some v \<Rightarrow>
          (if \<not> value_ok f v then Inl (WrongType (spec_name f))
           else (case check_fields fs d of
                   Inl v' \<Rightarrow> Inl v'
                 | Inr parsed \<Rightarrow> Inr ((spec_name f, v) # parsed))))"

definition validate :: "pyval \<Rightarrow> ResponseSchema \<Rightarrow> Violation + pydict" where
  "validate raw_payload schema =
     (case raw_payload of
        PDict d \<Rightarrow>
          (case find (\<lambda>k. k \<notin> set (map spec_name schema)) (map fst d) of
             Some k \<Rightarrow> Inl (UnknownField k)
           | None \<Rightarrow> check_fields schema d)
      | _ \<Rightarrow> Inl NotAMapping)"

text \<open>
  Modelled from the spec: what it is for a structured response to validate against the
  schema (testable properties): it has the schema's fields, one value each, of the
  declared types.
\<close>

definition conforms :: "ResponseSchema \<Rightarrow> pydict \<Rightarrow> bool" where
  "conforms schema parsed =
     list_all2 (\<lambda>f kv. fst kv = spec_name f \<and> value_ok f (snd kv)) schema parsed"

subsection \<open>Orchestration state machine\<close>

text \<open>
  Modelled from the spec: the configuration of the agent core, which the library builds
  in \<^verbatim>\<open>create_agent\<close> (component design, external interfaces). The gateway is the model, a
  parameter: it answers the request (messages, tool descriptors, response schema), and,
  being a remote service that may answer the same request differently, it is also given
  the number of calls made before in the turn. The limit of attempts on a transient
  error has no value in the specification and is a parameter, as are the text shown for
  a tool's result and the text describing a violation. The bound on repair attempts is
  the constant the specification names.
\<close>

record AgentConfig =
  gateway :: "nat \<Rightarrow> Message list \<Rightarrow> ToolDescriptor list \<Rightarrow> ResponseSchema \<Rightarrow> ModelError + ModelOutcome"
  tools :: ToolRegistry
  response_schema :: ResponseSchema
  model_attempt_limit :: nat
  render_result :: "pyval \<Rightarrow> ustr"
  describe_violation :: "Violation \<Rightarrow> ustr"

definition REPAIR_LIMIT :: nat where
  "REPAIR_LIMIT = 2"

text \<open>
  Modelled from the spec: the states of the library's orchestration loop (component
  design, Agent Core): \<^verbatim>\<open>LOADING\<close> with the user's input, \<^verbatim>\<open>TOOL_DISPATCH\<close> with the
  requests to serve, \<^verbatim>\<open>VALIDATING\<close> with the final payload, \<^verbatim>\<open>REPAIR\<close> with the
  violation found, \<^verbatim>\<open>DONE\<close> with the parsed response, \<^verbatim>\<open>FAILED\<close> with the kind of
  error. The state of a turn holds the phase, the session store, the number of model
  calls made, of failed attempts of the current model call and of repair attempts made,
  and the record of what each invoked handler received.
\<close>

datatype Phase =
    LOADING ustr
  | MODEL_CALL
  | TOOL_DISPATCH "ToolInvocationRequest list"
  | VALIDATING pyval
  | REPAIR Violation
  | DONE pydict
  | FAILED ErrorKind

record CoreState =
  phase :: Phase
  store :: SessionStore
  model_calls :: nat
  attempts :: nat
  repairs :: nat
  tool_log :: "ToolCall list"

text \<open>
  Modelled from the spec: the \<^verbatim>\<open>tool\<close> message the library appends for a tool's result
  (\<^verbatim>\<open>TOOL_DISPATCH\<close>): it carries the id of the request it answers and, as its content,
  the result shown as text or the description of the captured error.
\<close>

definition tool_message :: "(pyval \<Rightarrow> ustr) \<Rightarrow> ToolInvocationRequest \<Rightarrow> ToolResult \<Rightarrow> Message" where
  "tool_message render req res =
     \<lparr>role = Tool,
      content = Some (case res of Success v \<Rightarrow> render v | Error descr \<Rightarrow> descr),
      tool_calls = [],
      tool_call_id = Some (request_id req)\<rparr>"

text \<open>
  Modelled from the spec: \<^verbatim>\<open>TOOL_DISPATCH\<close> of the library's loop: the requests are served
  in the order the model gave them, and each result is appended as a \<^verbatim>\<open>tool\<close> message.
\<close>

fun dispatch ::
  "AgentConfig \<Rightarrow> Context \<Rightarrow> ustr \<Rightarrow> ToolInvocationRequest list \<Rightarrow>
   SessionStore \<times> ToolCall list \<Rightarrow> SessionStore \<times> ToolCall list" where
  "dispatch cfg ctx sid [] acc = acc"
| "dispatch cfg ctx sid (req # reqs) (st, log) =
     (case registry_invoke (tools cfg) (tool_name req) (arguments req) ctx of
        (res, call) \<Rightarrow>
          dispatch cfg ctx sid reqs
            (append_message st sid (tool_message (render_result cfg) req res),
             log @ (case call of None \<Rightarrow> [] | Some c \<Rightarrow> [c])))"

text \<open>
  Modelled from the spec: the library's loop entering \<^verbatim>\<open>FAILED\<close>: the turn ends with the
  kind of error and the session is marked failed.
\<close>

definition fail :: "ustr \<Rightarrow> ErrorKind \<Rightarrow> CoreState \<Rightarrow> CoreState" where
  "fail sid e s = s\<lparr>phase := FAILED e, store := checkpoint_status (store s) sid Failed\<rparr>"

text \<open>
  Modelled from the spec: one transition of the library's orchestration loop, from the
  phase the state is in (component design, Agent Core). \<^verbatim>\<open>LOADING\<close> restores the session,
  resets its status to active unless it had failed, and appends the user's message.
  \<^verbatim>\<open>MODEL_CALL\<close> calls the gateway on the session's messages: a transient error is
  retried until the attempts reach the limit, then the turn fails with
  \<open>ModelUnavailable\<close>; a fatal error fails the turn at once; tool calls are recorded in an
  \<^verbatim>\<open>assistant\<close> message and dispatched; a final payload is validated. \<^verbatim>\<open>VALIDATING\<close> ends
  the turn done on a valid payload, and on a violation goes to \<^verbatim>\<open>REPAIR\<close> while repair
  attempts remain, else fails the turn with \<open>SchemaViolation\<close>. \<^verbatim>\<open>REPAIR\<close> counts the
  attempt and prompts the model again with the description of the violation.
\<close>

definition step :: "AgentConfig \<Rightarrow> Context \<Rightarrow> ustr \<Rightarrow> CoreState \<Rightarrow> CoreState" where
  "step cfg ctx sid s =
     (case phase s of
        LOADING user_input \<Rightarrow>
          (let loaded = load (store s) sid;
               st1 = (if session_status loaded = Failed then (store s)(sid \<mapsto> loaded)
                      else checkpoint_status (store s) sid Active)
           in s\<lparr>phase := MODEL_CALL,
                store := append_message st1 sid
                  \<lparr>role = User, content = Some user_input, tool_calls = [],
                   tool_call_id = None\<rparr>\<rparr>)
      | MODEL_CALL \<Rightarrow>
          (case gateway cfg (model_calls s) (get_messages (store s) sid) (tools cfg)
                  (response_schema cfg) of
             Inl TransientModelError \<Rightarrow>
               (if Suc (attempts s) < model_attempt_limit cfg
                then s\<lparr>model_calls := Suc (model_calls s), attempts := Suc (attempts s)\<rparr>
                else fail sid ModelUnavailable (s\<lparr>model_calls := Suc (model_calls s)\<rparr>))
           | Inl FatalModelError \<Rightarrow>
               fail sid FatalModel (s\<lparr>model_calls := Suc (model_calls s)\<rparr>)
           | Inr (ToolCallOutcome reqs) \<Rightarrow>
               s\<lparr>phase := TOOL_DISPATCH reqs,
                 store := append_message (store s) sid
                   \<lparr>role = Assistant, content = None, tool_calls = reqs,
                    tool_call_id = None\<rparr>,
                 model_calls := Suc (model_calls s), attempts := 0\<rparr>
           | Inr (FinalOutcome payload) \<Rightarrow>
               s\<lparr>phase := VALIDATING payload,
                 model_calls := Suc (model_calls s), attempts := 0\<rparr>)
      | TOOL_DISPATCH reqs \<Rightarrow>
          (case dispatch cfg ctx sid reqs (store s, tool_log s) of
             (st', log') \<Rightarrow> s\<lparr>phase := MODEL_CALL, store := st', tool_log := log'\<rparr>)
      | VALIDATING payload \<Rightarrow>
          (case validate payload (response_schema cfg) of
             Inr parsed \<Rightarrow>
               s\<lparr>phase := DONE parsed, store := checkpoint_status (store s) sid Completed\<rparr>
           | Inl v \<Rightarrow>
               (if repairs s < REPAIR_LIMIT then s\<lparr>phase := REPAIR v\<rparr>
                else fail sid SchemaViolation s))
      | REPAIR v \<Rightarrow>
          s\<lparr>phase := MODEL_CALL,
            store := append_message (store s) sid
              \<lparr>role = User, content = Some (describe_violation cfg v), tool_calls = [],
               tool_call_id = None\<rparr>,
            repairs := Suc (repairs s)\<rparr>
      | DONE parsed \<Rightarrow> s
      | FAILED e \<Rightarrow> s)"

text \<open>
  Modelled from the spec: the terminal states of the library's loop, \<^verbatim>\<open>DONE\<close> and
  \<^verbatim>\<open>FAILED\<close>.
\<close>

fun terminal :: "Phase \<Rightarrow> bool" where
  "terminal (DONE parsed) = True"
| "terminal (FAILED e) = True"
| "terminal p = False"

text \<open>
  Modelled from the spec: a turn of the library's loop, the machine run from \<^verbatim>\<open>LOADING\<close>
  to a terminal phase. The model may ask for
  tools without end, so the run is bounded by a number of transitions: \<open>None\<close> is a turn
  that has not ended within the bound.
\<close>

fun run :: "nat \<Rightarrow> AgentConfig \<Rightarrow> Context \<Rightarrow> ustr \<Rightarrow> CoreState \<Rightarrow> CoreState option" where
  "run 0 cfg ctx sid s = (if terminal (phase s) then Some s else None)"
| "run (Suc n) cfg ctx sid s =
     (if terminal (phase s) then Some s else run n cfg ctx sid (step cfg ctx sid s))"

text \<open>
  Modelled from the spec: the state in which the library's \<^verbatim>\<open>invoke\<close> starts a turn, and
  the result it returns from the state the turn ends in (external interfaces).
\<close>

definition initial :: "SessionStore \<Rightarrow> ustr \<Rightarrow> CoreState" where
  "initial st user_input =
     \<lparr>phase = LOADING user_input, store = st, model_calls = 0, attempts = 0, repairs = 0,
      tool_log = []\<rparr>"

definition result_of :: "CoreState \<Rightarrow> TurnResult" where
  "result_of s =
     (case phase s of
        DONE parsed \<Rightarrow> \<lparr>status = StatusDone, structured_response = Some parsed, error = None\<rparr>
      | FAILED e \<Rightarrow> \<lparr>status = StatusFailed, structured_response = None, error = Some e\<rparr>
      | _ \<Rightarrow> \<lparr>status = StatusFailed, structured_response = None, error = None\<rparr>)"

text \<open>
  Modelled from the spec: the invocation entry point, the library's
  \<^verbatim>\<open>invoke(user_input, session_id, context)\<close>, on a session store and within a bound.
\<close>

definition agent_invoke ::
  "nat \<Rightarrow> AgentConfig \<Rightarrow> SessionStore \<Rightarrow> ustr \<Rightarrow> ustr \<Rightarrow> Context \<Rightarrow> TurnResult option" where
  "agent_invoke bound cfg st user_input sid ctx =
     map_option result_of (run bound cfg ctx sid (initial st user_input))"

text \<open>
  A payload is the model's when some call of the gateway, on some messages, gives it as
  its final outcome.
\<close>

definition from_model :: "AgentConfig \<Rightarrow> pyval \<Rightarrow> bool" where
  "from_model cfg payload =
     (\<exists>n msgs. gateway cfg n msgs (tools cfg) (response_schema cfg) = Inr (FinalOutcome payload))"

subsection \<open>The agent of the module\<close>

text \<open>
  Modelled from the spec: what the library's \<^verbatim>\<open>create_agent\<close> builds from the module's call
  \<^verbatim>\<open>create_agent(model=model, tools=[get_book_list, get_book_list_by_userid],
  context_schema=Context, response_format=ResponseFormat, checkpointer=InMemorySaver())\<close>:
  the core above with the module's two tools and the schema of its response format. The
  module's call gives no limit of attempts and no texts; they stay parameters. The store
  of \<^verbatim>\<open>InMemorySaver()\<close> starts empty.
\<close>

definition agent ::
  "(nat \<Rightarrow> Message list \<Rightarrow> ToolDescriptor list \<Rightarrow> ResponseSchema \<Rightarrow> ModelError + ModelOutcome) \<Rightarrow>
   nat \<Rightarrow> (pyval \<Rightarrow> ustr) \<Rightarrow> (Violation \<Rightarrow> ustr) \<Rightarrow> AgentConfig" where
  "agent model limit render describe =
     \<lparr>gateway = model,
      tools = [get_book_list_tool, get_book_list_by_userid_tool],
      response_schema = schema_of ResponseFormat_fields,
      model_attempt_limit = limit,
      render_result = render,
      describe_violation = describe\<rparr>"

definition checkpointer :: SessionStore where
  "checkpointer = Map.empty"

subsection \<open>Stub models\<close>

text \<open>
  Deterministic stand-ins for the model, for running the core on concrete turns. The
  first asks for both tools on its first call and gives a fixed final payload from then
  on; the second always gives a final payload that lacks \<^verbatim>\<open>encouragement_response\<close>.
\<close>

definition stub_requests :: "ToolInvocationRequest list" where
  "stub_requests =
     [\<lparr>request_id = ascii ''call_1'', tool_name = ascii ''get_book_list_by_userid'',
        arguments = []\<rparr>,
      \<lparr>request_id = ascii ''call_2'', tool_name = ascii ''get_book_list'',
        arguments = []\<rparr>]"

definition stub_model ::
  "pyval \<Rightarrow> nat \<Rightarrow> Message list \<Rightarrow> ToolDescriptor list \<Rightarrow> ResponseSchema \<Rightarrow> ModelError + ModelOutcome" where
  "stub_model payload n msgs descriptors schema =
     (if n = 0 then Inr (ToolCallOutcome stub_requests) else Inr (FinalOutcome payload))"


definition stub_render :: "pyval \<Rightarrow> ustr" where
  "stub_render v = (case v of PStr s \<Rightarrow> s | _ \<Rightarrow> ascii ''<value>'')"

definition stub_describe :: "Violation \<Rightarrow> ustr" where
  "stub_describe v = ascii ''the payload violates the schema''"

text \<open>A final payload that recommends a book user \<^verbatim>\<open>"1"\<close> has borrowed, and one that does not.\<close>

definition payload_borrowed :: pyval where
  "payload_borrowed =
     PDict [(ascii ''encouragement_response'', PStr (ascii ''well done'')),
            (ascii ''book_info'', PDict [(ascii ''title'', PStr borrowed_1b)]),
            (ascii ''reason'', PStr (ascii ''a classic''))]"

definition payload_fresh :: pyval where
  "payload_fresh =
     PDict [(ascii ''encouragement_response'', PStr (ascii ''well done'')),
            (ascii ''book_info'', PDict book_4),
            (ascii ''reason'', PStr (ascii ''a new topic''))]"

section \<open>The tools' results\<close>

lemma ascii_keys:
  "ascii ''available'' \<noteq> ascii ''title''"
  "ascii ''available'' \<noteq> ascii ''author''"
  "ascii ''available'' \<noteq> ascii ''publisher''"
  "ascii ''available'' \<noteq> ascii ''publish_date''"
  "ascii ''available'' \<noteq> ascii ''description''"
  by (simp_all add: ascii_def)

lemma book_dict_available: "map_of (book_dict t a p d descr av) (ascii ''available'') = Some (PBool av)"
  using ascii_keys by (simp add: book_dict_def)

lemma book_dict_title: "map_of (book_dict t a p d descr av) (ascii ''title'') = Some (PStr t)"
  by (simp add: book_dict_def)

lemma available_book_dict:
  "available_books (book_dict t a p d descr av # rest) =
     (case available_books rest of
        Inl e \<Rightarrow> Inl e
      | Inr kept \<Rightarrow> Inr (if av then book_dict t a p d descr av # kept else kept))"
  by (simp add: getitem_def book_dict_available split: sum.split)

lemma available_books_books: "available_books books = Inr [book_1, book_2, book_4, book_5]"
  by (simp add: books_def book_1_def book_2_def book_3_def book_4_def book_5_def
      available_book_dict del: available_books.simps(2))

text \<open>
  C1. Every invocation of \<^verbatim>\<open>get_book_list\<close> returns the dict whose one entry, \<^verbatim>\<open>books\<close>,
  lists the catalogue entries whose \<^verbatim>\<open>available\<close> flag is true and no other: four of the
  five entries, in catalogue order and as they stand in the catalogue; the entry left out
  is the third, whose title is \<open>title_3\<close>.
\<close>

theorem get_book_list_available:
  "get_book_list call =
     Inr (PDict [(ascii ''books'', PList (map PDict [book_1, book_2, book_4, book_5]))])
   \<and> [book_1, book_2, book_4, book_5] =
       filter (\<lambda>b. map_of b (ascii ''available'') = Some (PBool True)) books
   \<and> filter (\<lambda>b. map_of b (ascii ''available'') \<noteq> Some (PBool True)) books = [book_3]
   \<and> map_of book_3 (ascii ''title'') = Some (PStr title_3)
   \<and> length books = 5
   \<and> length [book_1, book_2, book_4, book_5] = 4"
proof -
  have "get_book_list call =
      Inr (PDict [(ascii ''books'', PList (map PDict [book_1, book_2, book_4, book_5]))])"
    by (simp add: get_book_list_def available_books_books)
  moreover have "map_of book_1 (ascii ''available'') = Some (PBool True)"
    "map_of book_2 (ascii ''available'') = Some (PBool True)"
    "map_of book_3 (ascii ''available'') = Some (PBool False)"
    "map_of book_4 (ascii ''available'') = Some (PBool True)"
    "map_of book_5 (ascii ''available'') = Some (PBool True)"
    by (simp_all add: book_1_def book_2_def book_3_def book_4_def book_5_def
        book_dict_available)
  moreover have "map_of book_3 (ascii ''title'') = Some (PStr title_3)"
    by (simp add: book_3_def book_dict_title)
  ultimately show ?thesis
    by (simp add: books_def)
qed

text \<open>
  C2. For a caller context whose \<^verbatim>\<open>user_id\<close> is \<^verbatim>\<open>"1"\<close>, \<^verbatim>\<open>get_book_list_by_userid\<close>
  returns the two borrowed titles of that user, the first, a newline, the second. Each
  is a catalogue title, \<^verbatim>\<open>" - "\<close> and its author.
\<close>

theorem get_book_list_by_userid_user_1:
  "get_book_list_by_userid \<lparr>context = \<lparr>user_id = ascii ''1''\<rparr>, \<dots> = ext\<rparr> =
     borrowed_1a @ [0x0A] @ borrowed_1b
   \<and> borrowed_1a = title_1 @ ascii '' - '' @ author_1
   \<and> borrowed_1b = title_2 @ ascii '' - '' @ author_2
   \<and> 0x0A \<notin> set borrowed_1a \<and> 0x0A \<notin> set borrowed_1b"
proof -
  have "get_book_list_by_userid \<lparr>context = \<lparr>user_id = ascii ''1''\<rparr>, \<dots> = ext\<rparr> =
      borrowed_1a @ [0x0A] @ borrowed_1b"
    by (simp add: get_book_list_by_userid_def borrowed_books_def dict_get_def)
  moreover have "borrowed_1a = title_1 @ ascii '' - '' @ author_1"
    by (simp add: borrowed_1a_def title_1_def author_1_def ascii_def)
  moreover have "borrowed_1b = title_2 @ ascii '' - '' @ author_2"
    by (simp add: borrowed_1b_def title_2_def author_2_def ascii_def)
  moreover have "0x0A \<notin> set borrowed_1a" "0x0A \<notin> set borrowed_1b"
    by (simp_all add: borrowed_1a_def borrowed_1b_def)
  ultimately show ?thesis by simp
qed

text \<open>
  C9. For a \<^verbatim>\<open>user_id\<close> that is neither \<^verbatim>\<open>"1"\<close> nor \<^verbatim>\<open>"2"\<close> the handler returns the
  fallback text, which is one line. The handler is a total function of the string: it has
  no failing branch.
\<close>

theorem get_book_list_by_userid_fallback:
  assumes "uid \<noteq> ascii ''1''" and "uid \<noteq> ascii ''2''"
  shows "get_book_list_by_userid \<lparr>context = \<lparr>user_id = uid\<rparr>, \<dots> = ext\<rparr> = no_borrow_record
     \<and> 0x0A \<notin> set no_borrow_record"
proof -
  have "map_of borrowed_books uid = None"
    using assms by (simp add: borrowed_books_def)
  then have "get_book_list_by_userid \<lparr>context = \<lparr>user_id = uid\<rparr>, \<dots> = ext\<rparr> = no_borrow_record"
    by (simp add: get_book_list_by_userid_def dict_get_def)
  moreover have "0x0A \<notin> set no_borrow_record"
    by (simp add: no_borrow_record_def)
  ultimately show ?thesis by simp
qed

theorem get_book_list_by_userid_fallback_witness:
  "ascii ''3'' \<noteq> ascii ''1'' \<and> ascii ''3'' \<noteq> ascii ''2''
   \<and> get_book_list_by_userid \<lparr>context = \<lparr>user_id = ascii ''3''\<rparr>\<rparr> = no_borrow_record
   \<and> 0x0A \<notin> set no_borrow_record"
proof -
  have h1: "ascii ''3'' \<noteq> ascii ''1''" and h2: "ascii ''3'' \<noteq> ascii ''2''"
    by (simp_all add: ascii_def)
  show ?thesis
    using h1 h2 get_book_list_by_userid_fallback [OF h1 h2, of "()"] by simp
qed

text \<open>
  C7. Two invocations of a tool on the same input give the same result. For
  \<^verbatim>\<open>get_book_list_by_userid\<close> the input is the \<^verbatim>\<open>user_id\<close> of the context: two runtimes
  that agree on it, whatever else they carry, give the same text. \<^verbatim>\<open>get_book_list\<close> has
  no input, and any two invocations of it agree.
\<close>

theorem tool_handlers_deterministic:
  assumes "user_id (context runtime1) = user_id (context runtime2)"
  shows "get_book_list_by_userid runtime1 = get_book_list_by_userid runtime2
     \<and> get_book_list call1 = get_book_list call2"
  using assms by (simp add: get_book_list_by_userid_def get_book_list_def)

theorem tool_handlers_deterministic_witness:
  "user_id (context \<lparr>context = \<lparr>user_id = ascii ''1''\<rparr>, \<dots> = True\<rparr>) =
     user_id (context \<lparr>context = \<lparr>user_id = ascii ''1''\<rparr>, \<dots> = False\<rparr>)
   \<and> get_book_list_by_userid \<lparr>context = \<lparr>user_id = ascii ''1''\<rparr>, \<dots> = True\<rparr> =
       get_book_list_by_userid \<lparr>context = \<lparr>user_id = ascii ''1''\<rparr>, \<dots> = False\<rparr>
   \<and> get_book_list () = get_book_list ()"
proof -
  have h: "user_id (context \<lparr>context = \<lparr>user_id = ascii ''1''\<rparr>, \<dots> = True\<rparr>) =
     user_id (context \<lparr>context = \<lparr>user_id = ascii ''1''\<rparr>, \<dots> = False\<rparr>)"
    by simp
  show ?thesis
    using h tool_handlers_deterministic [OF h, of "()" "()"] by simp
qed

section \<open>The response format's declaration\<close>

lemma response_field_names:
  "ascii ''encouragement_response'' \<noteq> ascii ''book_info''"
  "ascii ''encouragement_response'' \<noteq> ascii ''reason''"
  "ascii ''book_info'' \<noteq> ascii ''reason''"
  "ascii ''book_info'' \<noteq> ascii ''encouragement_response''"
  "ascii ''reason'' \<noteq> ascii ''encouragement_response''"
  "ascii ''reason'' \<noteq> ascii ''book_info''"
  by (simp_all add: ascii_def)

text \<open>
  C4. The response format declares three fields and no other: \<^verbatim>\<open>encouragement_response\<close>,
  required text; \<^verbatim>\<open>book_info\<close>, an optional structured value; \<^verbatim>\<open>reason\<close>, optional
  text. The three names are distinct.
\<close>

theorem ResponseFormat_declares_three_fields:
  "map (\<lambda>f. (field_name f, annotation_type (annotation f), is_required f))
       ResponseFormat_fields =
     [(ascii ''encouragement_response'', Text, True),
      (ascii ''book_info'', Structured, False),
      (ascii ''reason'', Text, False)]
   \<and> length ResponseFormat_fields = 3
   \<and> distinct (map field_name ResponseFormat_fields)"
  using response_field_names
  by (simp add: ResponseFormat_fields_def is_required_def)







section \<open>The agent core's turns\<close>

subsection \<open>Transitions and runs\<close>

lemma step_LOADING:
  assumes "phase s = LOADING u"
  shows "phase (step cfg ctx sid s) = MODEL_CALL"
    and "model_calls (step cfg ctx sid s) = model_calls s"
    and "attempts (step cfg ctx sid s) = attempts s"
    and "repairs (step cfg ctx sid s) = repairs s"
    and "tool_log (step cfg ctx sid s) = tool_log s"
  using assms by (simp_all add: step_def Let_def)

lemma step_MODEL_CALL_final:
  assumes "phase s = MODEL_CALL"
    and "gateway cfg (model_calls s) (get_messages (store s) sid) (tools cfg)
           (response_schema cfg) = Inr (FinalOutcome payload)"
  shows "phase (step cfg ctx sid s) = VALIDATING payload"
    and "model_calls (step cfg ctx sid s) = Suc (model_calls s)"
    and "repairs (step cfg ctx sid s) = repairs s"
    and "tool_log (step cfg ctx sid s) = tool_log s"
    and "store (step cfg ctx sid s) = store s"
  using assms by (simp_all add: step_def)

lemma step_MODEL_CALL_tools:
  assumes "phase s = MODEL_CALL"
    and "gateway cfg (model_calls s) (get_messages (store s) sid) (tools cfg)
           (response_schema cfg) = Inr (ToolCallOutcome reqs)"
  shows "phase (step cfg ctx sid s) = TOOL_DISPATCH reqs"
    and "model_calls (step cfg ctx sid s) = Suc (model_calls s)"
    and "repairs (step cfg ctx sid s) = repairs s"
    and "tool_log (step cfg ctx sid s) = tool_log s"
  using assms by (simp_all add: step_def)

lemma step_TOOL_DISPATCH:
  assumes "phase s = TOOL_DISPATCH reqs"
  shows "phase (step cfg ctx sid s) = MODEL_CALL"
    and "model_calls (step cfg ctx sid s) = model_calls s"
    and "repairs (step cfg ctx sid s) = repairs s"
    and "tool_log (step cfg ctx sid s) = snd (dispatch cfg ctx sid reqs (store s, tool_log s))"
    and "store (step cfg ctx sid s) = fst (dispatch cfg ctx sid reqs (store s, tool_log s))"
  using assms by (simp_all add: step_def split: prod.split)

lemma step_VALIDATING_ok:
  assumes "phase s = VALIDATING payload"
    and "validate payload (response_schema cfg) = Inr parsed"
  shows "phase (step cfg ctx sid s) = DONE parsed"
    and "model_calls (step cfg ctx sid s) = model_calls s"
    and "repairs (step cfg ctx sid s) = repairs s"
    and "tool_log (step cfg ctx sid s) = tool_log s"
  using assms by (simp_all add: step_def)





lemma run_ends_terminal:
  "run n cfg ctx sid s = Some s' \<Longrightarrow> terminal (phase s')"
  by (induction n arbitrary: s) (auto split: if_splits)

text \<open>
  A property that holds of the state a turn starts in and that every transition from a
  phase that is not terminal keeps, holds of the state the turn ends in.
\<close>

lemma run_invariant:
  assumes "run n cfg ctx sid s = Some s'"
    and "I s"
    and "\<And>t. I t \<Longrightarrow> \<not> terminal (phase t) \<Longrightarrow> I (step cfg ctx sid t)"
  shows "I s'"
  using assms(1,2)
proof (induction n arbitrary: s)
  case 0
  then show ?case by (simp split: if_splits)
next
  case (Suc n)
  show ?case
  proof (cases "terminal (phase s)")
    case True
    with Suc.prems show ?thesis by simp
  next
    case False
    with Suc.prems have "run n cfg ctx sid (step cfg ctx sid s) = Some s'" by simp
    moreover have "I (step cfg ctx sid s)" using assms(3) Suc.prems(2) False by blast
    ultimately show ?thesis by (rule Suc.IH)
  qed
qed

subsection \<open>The structured response\<close>

lemma check_fields_conforms:
  "check_fields schema d = Inr parsed \<Longrightarrow> conforms schema parsed"
proof (induction schema arbitrary: parsed)
  case Nil
  then show ?case by (simp add: conforms_def)
next
  case (Cons f fs)
  show ?case
  proof (cases "map_of d (spec_name f)")
    case None
    with Cons.prems obtain rest where r: "check_fields fs d = Inr rest"
      and p: "parsed = (spec_name f, PNone) # rest" and o: "\<not> required f"
      by (auto split: if_splits sum.splits)
    from Cons.IH [OF r] have "conforms fs rest" .
    with p o show ?thesis by (simp add: conforms_def value_ok_def)
  next
    case (Some v)
    with Cons.prems obtain rest where r: "check_fields fs d = Inr rest"
      and p: "parsed = (spec_name f, v) # rest" and o: "value_ok f v"
      by (auto split: if_splits sum.splits)
    from Cons.IH [OF r] have "conforms fs rest" .
    with p o show ?thesis by (simp add: conforms_def)
  qed
qed

lemma validate_conforms:
  "validate payload schema = Inr parsed \<Longrightarrow> conforms schema parsed"
  by (auto simp: validate_def check_fields_conforms split: pyval.splits option.splits)

lemma step_DONE_validated:
  assumes "\<not> terminal (phase s)" and "phase (step cfg ctx sid s) = DONE parsed"
  shows "\<exists>payload. phase s = VALIDATING payload
           \<and> validate payload (response_schema cfg) = Inr parsed"
  using assms
  by (auto simp: step_def fail_def Let_def
      split: Phase.splits sum.splits ModelError.splits ModelOutcome.splits if_splits
        prod.splits)

lemma result_of_terminal:
  assumes "terminal (phase s)"
  shows "(status (result_of s) = StatusDone \<longrightarrow>
           (\<exists>parsed. phase s = DONE parsed \<and> structured_response (result_of s) = Some parsed
              \<and> error (result_of s) = None))
       \<and> (status (result_of s) = StatusFailed \<longrightarrow>
           (\<exists>e. phase s = FAILED e \<and> structured_response (result_of s) = None
              \<and> error (result_of s) = Some e))"
  using assms by (cases "phase s") (simp_all add: result_of_def)

lemma schema_of_ResponseFormat:
  "schema_of ResponseFormat_fields =
     [\<lparr>spec_name = ascii ''encouragement_response'', spec_type = Text, required = True\<rparr>,
      \<lparr>spec_name = ascii ''book_info'', spec_type = Structured, required = False\<rparr>,
      \<lparr>spec_name = ascii ''reason'', spec_type = Text, required = False\<rparr>]"
  by (simp add: schema_of_def ResponseFormat_fields_def is_required_def)

lemma validate_payload_borrowed:
  "validate payload_borrowed (schema_of ResponseFormat_fields) =
     Inr [(ascii ''encouragement_response'', PStr (ascii ''well done'')),
          (ascii ''book_info'', PDict [(ascii ''title'', PStr borrowed_1b)]),
          (ascii ''reason'', PStr (ascii ''a classic''))]"
  using response_field_names
  by (simp add: schema_of_ResponseFormat validate_def payload_borrowed_def value_ok_def)

lemma validate_payload_fresh:
  "validate payload_fresh (schema_of ResponseFormat_fields) =
     Inr [(ascii ''encouragement_response'', PStr (ascii ''well done'')),
          (ascii ''book_info'', PDict book_4),
          (ascii ''reason'', PStr (ascii ''a new topic''))]"
  using response_field_names
  by (simp add: schema_of_ResponseFormat validate_def payload_fresh_def value_ok_def)

text \<open>
  The turn of the module's agent on a stub model that asks for the tools once and then
  gives a final payload the validator accepts: five transitions to \<^verbatim>\<open>DONE\<close>.
\<close>

lemma stub_turn:
  assumes v: "validate payload (schema_of ResponseFormat_fields) = Inr parsed"
  shows "\<exists>s. run 5 (agent (stub_model payload) limit render describe) ctx sid
                (initial st user_input) = Some s
            \<and> phase s = DONE parsed
            \<and> tool_log s =
                snd (dispatch (agent (stub_model payload) limit render describe) ctx sid
                       stub_requests
                       (store (step (agent (stub_model payload) limit render describe) ctx sid
                          (step (agent (stub_model payload) limit render describe) ctx sid
                             (initial st user_input))), []))"
proof -
  define cfg where "cfg = agent (stub_model payload) limit render describe"
  define s0 where "s0 = initial st user_input"
  define s1 where "s1 = step cfg ctx sid s0"
  define s2 where "s2 = step cfg ctx sid s1"
  define s3 where "s3 = step cfg ctx sid s2"
  define s4 where "s4 = step cfg ctx sid s3"
  define s5 where "s5 = step cfg ctx sid s4"
  have g: "gateway cfg n msgs ds sch = stub_model payload n msgs ds sch" for n msgs ds sch
    by (simp add: cfg_def agent_def)
  have sch: "response_schema cfg = schema_of ResponseFormat_fields"
    by (simp add: cfg_def agent_def)
  have p0: "phase s0 = LOADING user_input" and c0: "model_calls s0 = 0"
    and l0: "tool_log s0 = []"
    by (simp_all add: s0_def initial_def)
  have p1: "phase s1 = MODEL_CALL" and c1: "model_calls s1 = 0" and l1: "tool_log s1 = []"
    using step_LOADING [OF p0, of cfg ctx sid] c0 l0 by (simp_all add: s1_def)
  have g1: "gateway cfg (model_calls s1) (get_messages (store s1) sid) (tools cfg)
      (response_schema cfg) = Inr (ToolCallOutcome stub_requests)"
    by (simp add: g c1 stub_model_def)
  have p2: "phase s2 = TOOL_DISPATCH stub_requests" and c2: "model_calls s2 = Suc 0"
    and l2: "tool_log s2 = []"
    using step_MODEL_CALL_tools [OF p1 g1, of ctx] c1 l1 by (simp_all add: s2_def)
  have p3: "phase s3 = MODEL_CALL" and c3: "model_calls s3 = Suc 0"
    and l3: "tool_log s3 = snd (dispatch cfg ctx sid stub_requests (store s2, []))"
    using step_TOOL_DISPATCH [OF p2, of cfg ctx sid] c2 l2 by (simp_all add: s3_def)
  have g3: "gateway cfg (model_calls s3) (get_messages (store s3) sid) (tools cfg)
      (response_schema cfg) = Inr (FinalOutcome payload)"
    by (simp add: g c3 stub_model_def)
  have p4: "phase s4 = VALIDATING payload" and l4: "tool_log s4 = tool_log s3"
    using step_MODEL_CALL_final [OF p3 g3, of ctx] by (simp_all add: s4_def)
  have v': "validate payload (response_schema cfg) = Inr parsed"
    using v by (simp add: sch)
  have p5: "phase s5 = DONE parsed" and l5: "tool_log s5 = tool_log s4"
    using step_VALIDATING_ok [OF p4 v', of ctx sid] by (simp_all add: s5_def)
  have "run 5 cfg ctx sid s0 = run 4 cfg ctx sid s1"
    using p0 by (simp add: eval_nat_numeral s1_def)
  also have "\<dots> = run 3 cfg ctx sid s2"
    using p1 by (simp add: eval_nat_numeral s2_def)
  also have "\<dots> = run 2 cfg ctx sid s3"
    using p2 by (simp add: eval_nat_numeral s3_def)
  also have "\<dots> = run 1 cfg ctx sid s4"
    using p3 by (simp add: eval_nat_numeral s4_def)
  also have "\<dots> = run 0 cfg ctx sid s5"
    using p4 by (simp add: s5_def)
  also have "\<dots> = Some s5"
    using p5 by simp
  finally have "run 5 cfg ctx sid s0 = Some s5" .
  moreover have "tool_log s5 = snd (dispatch cfg ctx sid stub_requests (store s2, []))"
    using l5 l4 l3 by simp
  ultimately show ?thesis
    using p5 unfolding cfg_def s0_def s1_def s2_def by blast
qed

text \<open>
  C3. Whatever the model answers, a turn that ends with status done returns a structured
  response that conforms to the declared schema (each field of the schema present with a
  value of its declared type, an optional field possibly \<^verbatim>\<open>None\<close>) and no error; a turn
  that ends failed returns no structured response. A response is never partial.
\<close>

theorem done_response_conforms:
  assumes "agent_invoke bound cfg st user_input sid ctx = Some res"
  shows "(status res = StatusDone \<longrightarrow>
            (\<exists>parsed. structured_response res = Some parsed
               \<and> conforms (response_schema cfg) parsed) \<and> error res = None)
       \<and> (status res = StatusFailed \<longrightarrow> structured_response res = None)
       \<and> (\<forall>parsed. structured_response res = Some parsed \<longrightarrow>
            conforms (response_schema cfg) parsed)"
proof -
  from assms obtain s where r: "run bound cfg ctx sid (initial st user_input) = Some s"
    and res: "res = result_of s"
    by (auto simp: agent_invoke_def)
  have t: "terminal (phase s)" using r by (rule run_ends_terminal)
  have "\<forall>parsed. phase s = DONE parsed \<longrightarrow> conforms (response_schema cfg) parsed"
  proof (rule run_invariant [OF r])
    show "\<forall>parsed. phase (initial st user_input) = DONE parsed \<longrightarrow>
        conforms (response_schema cfg) parsed"
      by (simp add: initial_def)
  next
    fix u :: CoreState
    assume "\<not> terminal (phase u)"
    then show "\<forall>parsed. phase (step cfg ctx sid u) = DONE parsed \<longrightarrow>
        conforms (response_schema cfg) parsed"
      using step_DONE_validated validate_conforms by blast
  qed
  with result_of_terminal [OF t] res show ?thesis
    by (cases "phase s") (auto simp: result_of_def)
qed

theorem done_response_conforms_witness:
  "agent_invoke 5 (agent (stub_model payload_fresh) 3 stub_render stub_describe)
       checkpointer user_query (ascii ''1'') \<lparr>user_id = ascii ''1''\<rparr> =
     Some \<lparr>status = StatusDone,
           structured_response =
             Some [(ascii ''encouragement_response'', PStr (ascii ''well done'')),
                   (ascii ''book_info'', PDict book_4),
                   (ascii ''reason'', PStr (ascii ''a new topic''))],
           error = None\<rparr>
   \<and> conforms (schema_of ResponseFormat_fields)
       [(ascii ''encouragement_response'', PStr (ascii ''well done'')),
        (ascii ''book_info'', PDict book_4),
        (ascii ''reason'', PStr (ascii ''a new topic''))]"
proof -
  from stub_turn [OF validate_payload_fresh]
  have h: "agent_invoke 5 (agent (stub_model payload_fresh) 3 stub_render stub_describe)
       checkpointer user_query (ascii ''1'') \<lparr>user_id = ascii ''1''\<rparr> =
     Some \<lparr>status = StatusDone,
           structured_response =
             Some [(ascii ''encouragement_response'', PStr (ascii ''well done'')),
                   (ascii ''book_info'', PDict book_4),
                   (ascii ''reason'', PStr (ascii ''a new topic''))],
           error = None\<rparr>"
    by (fastforce simp: agent_invoke_def result_of_def)
  from done_response_conforms [OF h] have
    "conforms (response_schema (agent (stub_model payload_fresh) 3 stub_render stub_describe))
       [(ascii ''encouragement_response'', PStr (ascii ''well done'')),
        (ascii ''book_info'', PDict book_4),
        (ascii ''reason'', PStr (ascii ''a new topic''))]"
    by simp
  then show ?thesis using h by (simp add: agent_def)
qed

subsection \<open>Repair attempts\<close>









subsection \<open>The recommended book\<close>

lemma check_fields_value:
  "check_fields schema d = Inr parsed \<Longrightarrow> f \<in> set schema \<Longrightarrow>
   map_of parsed (spec_name f) = Some (dict_get d (spec_name f) PNone)"
proof (induction schema arbitrary: parsed)
  case Nil
  then show ?case by simp
next
  case (Cons h fs)
  from Cons.prems(1) obtain rest where r: "check_fields fs d = Inr rest"
    and p: "parsed = (spec_name h, dict_get d (spec_name h) PNone) # rest"
    by (auto simp: dict_get_def split: option.splits if_splits sum.splits)
  show ?case
  proof (cases "spec_name f = spec_name h")
    case True
    with p show ?thesis by simp
  next
    case False
    with Cons.prems(2) have "f \<in> set fs" by auto
    from Cons.IH [OF r this] False p show ?thesis by simp
  qed
qed

lemma validate_value:
  assumes "validate payload schema = Inr parsed"
  shows "\<exists>d. payload = PDict d
           \<and> (\<forall>f\<in>set schema. map_of parsed (spec_name f) =
                 Some (dict_get d (spec_name f) PNone))"
proof (cases payload)
  case (PDict d)
  with assms have "check_fields schema d = Inr parsed"
    by (simp add: validate_def split: option.splits)
  with PDict show ?thesis using check_fields_value by blast
qed (use assms in \<open>simp_all add: validate_def\<close>)

lemma step_from_model:
  assumes i: "(\<forall>payload. phase s = VALIDATING payload \<longrightarrow> from_model cfg payload)
       \<and> (\<forall>parsed. phase s = DONE parsed \<longrightarrow>
            (\<exists>payload. from_model cfg payload
               \<and> validate payload (response_schema cfg) = Inr parsed))"
    and nt: "\<not> terminal (phase s)"
  shows "(\<forall>payload. phase (step cfg ctx sid s) = VALIDATING payload \<longrightarrow> from_model cfg payload)
       \<and> (\<forall>parsed. phase (step cfg ctx sid s) = DONE parsed \<longrightarrow>
            (\<exists>payload. from_model cfg payload
               \<and> validate payload (response_schema cfg) = Inr parsed))"
proof (cases "phase s")
  case (LOADING u)
  then show ?thesis by (simp add: step_def Let_def)
next
  case MODEL_CALL
  then show ?thesis
    by (auto simp: step_def fail_def from_model_def
        split: sum.splits ModelError.splits ModelOutcome.splits if_splits)
next
  case (TOOL_DISPATCH reqs)
  then show ?thesis by (simp add: step_def split: prod.split)
next
  case (VALIDATING payload)
  with i have "from_model cfg payload" by simp
  with VALIDATING show ?thesis
    by (auto simp: step_def fail_def split: sum.splits if_splits)
next
  case (REPAIR v)
  then show ?thesis by (simp add: step_def)
next
  case (DONE parsed)
  with nt show ?thesis by simp
next
  case (FAILED e)
  with nt show ?thesis by simp
qed

lemma run_from_model:
  assumes "run bound cfg ctx sid (initial st user_input) = Some s"
    and "phase s = DONE parsed"
  shows "\<exists>payload. from_model cfg payload
           \<and> validate payload (response_schema cfg) = Inr parsed"
proof -
  have "(\<forall>payload. phase s = VALIDATING payload \<longrightarrow> from_model cfg payload)
       \<and> (\<forall>parsed. phase s = DONE parsed \<longrightarrow>
            (\<exists>payload. from_model cfg payload
               \<and> validate payload (response_schema cfg) = Inr parsed))"
  proof (rule run_invariant [OF assms(1)])
    show "(\<forall>payload. phase (initial st user_input) = VALIDATING payload \<longrightarrow>
             from_model cfg payload)
       \<and> (\<forall>parsed. phase (initial st user_input) = DONE parsed \<longrightarrow>
            (\<exists>payload. from_model cfg payload
               \<and> validate payload (response_schema cfg) = Inr parsed))"
      by (simp add: initial_def)
  next
    fix u :: CoreState
    assume "(\<forall>payload. phase u = VALIDATING payload \<longrightarrow> from_model cfg payload)
       \<and> (\<forall>parsed. phase u = DONE parsed \<longrightarrow>
            (\<exists>payload. from_model cfg payload
               \<and> validate payload (response_schema cfg) = Inr parsed))"
      and "\<not> terminal (phase u)"
    then show "(\<forall>payload. phase (step cfg ctx sid u) = VALIDATING payload \<longrightarrow>
             from_model cfg payload)
       \<and> (\<forall>parsed. phase (step cfg ctx sid u) = DONE parsed \<longrightarrow>
            (\<exists>payload. from_model cfg payload
               \<and> validate payload (response_schema cfg) = Inr parsed))"
      by (rule step_from_model)
  qed
  with assms(2) show ?thesis by simp
qed

lemma book_info_in_schema:
  "\<lparr>spec_name = ascii ''book_info'', spec_type = Structured, required = False\<rparr>
     \<in> set (schema_of ResponseFormat_fields)"
  by (simp add: schema_of_ResponseFormat)

text \<open>
  C8, as the claim states it, fails: the core accepts any final payload that fits the
  schema. Here the stub model recommends to user \<^verbatim>\<open>"1"\<close> the second of the two titles that
  user has borrowed, and the turn ends done with that recommendation.
\<close>

theorem recommendation_may_be_borrowed:
  "agent_invoke 5 (agent (stub_model payload_borrowed) 3 stub_render stub_describe)
       checkpointer user_query (ascii ''1'') \<lparr>user_id = ascii ''1''\<rparr> =
     Some \<lparr>status = StatusDone,
           structured_response =
             Some [(ascii ''encouragement_response'', PStr (ascii ''well done'')),
                   (ascii ''book_info'', PDict [(ascii ''title'', PStr borrowed_1b)]),
                   (ascii ''reason'', PStr (ascii ''a classic''))],
           error = None\<rparr>
   \<and> dict_get borrowed_books (ascii ''1'') [no_borrow_record] = [borrowed_1a, borrowed_1b]"
proof -
  from stub_turn [OF validate_payload_borrowed]
  have "agent_invoke 5 (agent (stub_model payload_borrowed) 3 stub_render stub_describe)
       checkpointer user_query (ascii ''1'') \<lparr>user_id = ascii ''1''\<rparr> =
     Some \<lparr>status = StatusDone,
           structured_response =
             Some [(ascii ''encouragement_response'', PStr (ascii ''well done'')),
                   (ascii ''book_info'', PDict [(ascii ''title'', PStr borrowed_1b)]),
                   (ascii ''reason'', PStr (ascii ''a classic''))],
           error = None\<rparr>"
    by (fastforce simp: agent_invoke_def result_of_def)
  moreover have "dict_get borrowed_books (ascii ''1'') [no_borrow_record] =
      [borrowed_1a, borrowed_1b]"
    by (simp add: dict_get_def borrowed_books_def)
  ultimately show ?thesis by simp
qed

text \<open>
  C8, amended. The structured response of a turn of the module's agent is the model's
  own final payload, validated: its \<^verbatim>\<open>book_info\<close> is the \<^verbatim>\<open>book_info\<close> of a final payload
  the model gave in the turn, or \<^verbatim>\<open>None\<close> when that payload has none. The core compares
  it with nothing, so the recommended book is one the user has not borrowed exactly when
  the model's payload names such a book.
\<close>

theorem recommendation_is_the_models:
  assumes "agent_invoke bound (agent model limit render describe) st user_input sid ctx =
      Some res"
    and "structured_response res = Some parsed"
  shows "\<exists>n msgs d.
      model n msgs [get_book_list_tool, get_book_list_by_userid_tool]
        (schema_of ResponseFormat_fields) = Inr (FinalOutcome (PDict d))
      \<and> validate (PDict d) (schema_of ResponseFormat_fields) = Inr parsed
      \<and> map_of parsed (ascii ''book_info'') = Some (dict_get d (ascii ''book_info'') PNone)"
proof -
  define cfg where "cfg = agent model limit render describe"
  from assms(1) obtain s where r: "run bound cfg ctx sid (initial st user_input) = Some s"
    and res: "res = result_of s"
    by (auto simp: agent_invoke_def cfg_def)
  from assms(2) res have d: "phase s = DONE parsed"
    by (cases "phase s") (simp_all add: result_of_def)
  from run_from_model [OF r d] obtain payload where
    m: "from_model cfg payload" and v: "validate payload (response_schema cfg) = Inr parsed"
    by blast
  have sch: "response_schema cfg = schema_of ResponseFormat_fields"
    by (simp add: cfg_def agent_def)
  from validate_value [OF v] obtain d where pd: "payload = PDict d"
    and f: "\<forall>f\<in>set (response_schema cfg). map_of parsed (spec_name f) =
        Some (dict_get d (spec_name f) PNone)"
    by blast
  from f book_info_in_schema
  have "map_of parsed (ascii ''book_info'') = Some (dict_get d (ascii ''book_info'') PNone)"
    unfolding sch by fastforce
  moreover from m obtain n msgs where
    "model n msgs [get_book_list_tool, get_book_list_by_userid_tool]
       (schema_of ResponseFormat_fields) = Inr (FinalOutcome payload)"
    by (auto simp: from_model_def cfg_def agent_def)
  ultimately show ?thesis using v pd sch by auto
qed

theorem recommendation_is_the_models_witness:
  "agent_invoke 5 (agent (stub_model payload_fresh) 3 stub_render stub_describe)
       checkpointer user_query (ascii ''1'') \<lparr>user_id = ascii ''1''\<rparr> =
     Some \<lparr>status = StatusDone,
           structured_response =
             Some [(ascii ''encouragement_response'', PStr (ascii ''well done'')),
                   (ascii ''book_info'', PDict book_4),
                   (ascii ''reason'', PStr (ascii ''a new topic''))],
           error = None\<rparr>
   \<and> (\<exists>n msgs d.
        stub_model payload_fresh n msgs [get_book_list_tool, get_book_list_by_userid_tool]
          (schema_of ResponseFormat_fields) = Inr (FinalOutcome (PDict d))
        \<and> map_of [(ascii ''encouragement_response'', PStr (ascii ''well done'')),
                   (ascii ''book_info'', PDict book_4),
                   (ascii ''reason'', PStr (ascii ''a new topic''))] (ascii ''book_info'') =
            Some (dict_get d (ascii ''book_info'') PNone))"
proof -
  from stub_turn [OF validate_payload_fresh]
  have h: "agent_invoke 5 (agent (stub_model payload_fresh) 3 stub_render stub_describe)
       checkpointer user_query (ascii ''1'') \<lparr>user_id = ascii ''1''\<rparr> =
     Some \<lparr>status = StatusDone,
           structured_response =
             Some [(ascii ''encouragement_response'', PStr (ascii ''well done'')),
                   (ascii ''book_info'', PDict book_4),
                   (ascii ''reason'', PStr (ascii ''a new topic''))],
           error = None\<rparr>"
    by (fastforce simp: agent_invoke_def result_of_def)
  have h2: "structured_response
      \<lparr>status = StatusDone,
       structured_response =
         Some [(ascii ''encouragement_response'', PStr (ascii ''well done'')),
               (ascii ''book_info'', PDict book_4),
               (ascii ''reason'', PStr (ascii ''a new topic''))],
       error = None\<rparr> =
      Some [(ascii ''encouragement_response'', PStr (ascii ''well done'')),
            (ascii ''book_info'', PDict book_4),
            (ascii ''reason'', PStr (ascii ''a new topic''))]"
    by simp
  from recommendation_is_the_models [OF h h2] obtain n msgs d where
    "stub_model payload_fresh n msgs [get_book_list_tool, get_book_list_by_userid_tool]
       (schema_of ResponseFormat_fields) = Inr (FinalOutcome (PDict d))"
    and "map_of [(ascii ''encouragement_response'', PStr (ascii ''well done'')),
                 (ascii ''book_info'', PDict book_4),
                 (ascii ''reason'', PStr (ascii ''a new topic''))] (ascii ''book_info'') =
           Some (dict_get d (ascii ''book_info'') PNone)"
    by blast
  then have "\<exists>n msgs d.
        stub_model payload_fresh n msgs [get_book_list_tool, get_book_list_by_userid_tool]
          (schema_of ResponseFormat_fields) = Inr (FinalOutcome (PDict d))
        \<and> map_of [(ascii ''encouragement_response'', PStr (ascii ''well done'')),
                   (ascii ''book_info'', PDict book_4),
                   (ascii ''reason'', PStr (ascii ''a new topic''))] (ascii ''book_info'') =
            Some (dict_get d (ascii ''book_info'') PNone)"
    by blast
  with h show ?thesis by blast
qed

subsection \<open>The context\<close>














end
